theory Spec2Isabelle
  imports Main "HOL-Library.Word"
begin

section \<open>The capture session of \<^verbatim>\<open>audio_capture.c\<close>\<close>

text \<open>
  The C types of the source. \<^verbatim>\<open>int\<close> and \<^verbatim>\<open>ma_uint32\<close> are 32 bits wide; an
  \<^verbatim>\<open>int\<close> is kept as its bit pattern and read with \<open>sint\<close>. A \<^verbatim>\<open>float\<close> sample is kept as
  its 32-bit pattern: the code only copies samples with \<^verbatim>\<open>memcpy\<close> and never computes
  with them.
\<close>

type_synonym c_int = "32 word"
type_synonym ma_uint32 = "32 word"
type_synonym float32 = "32 word"

text \<open>\<^verbatim>\<open>#define MAX_SAMPLES (16000 * 60)  // 60 seconds max\<close>\<close>

definition MAX_SAMPLES :: nat where
  "MAX_SAMPLES = 16000 * 60"

text \<open>
  \<^verbatim>\<open>struct AudioCapture\<close>. The device type \<open>'d\<close> is left open: \<^verbatim>\<open>ma_device\<close> belongs to the
  audio library. \<open>buffer\<close> is the block that \<^verbatim>\<open>cap->buffer\<close> points to.
\<close>

record 'd AudioCapture =
  device :: 'd
  buffer :: "float32 list"
  sample_count :: c_int
  callback_count :: c_int
  recording :: c_int

subsection \<open>The audio library\<close>

text \<open>
  The source compares every library result with \<^verbatim>\<open>MA_SUCCESS\<close> only, so all other result
  codes are one constructor.
\<close>

datatype ma_result = MA_SUCCESS | MA_ERROR

datatype ma_device_type = ma_device_type_capture

datatype ma_format = ma_format_f32

text \<open>
  The fields of \<^verbatim>\<open>ma_device_config\<close> that \<^verbatim>\<open>audio_capture_create\<close> sets. The two pointer fields
  \<^verbatim>\<open>dataCallback\<close> and \<^verbatim>\<open>pUserData\<close> are the wiring of \<open>data_callback\<close> to the session and
  are not data of the model.
\<close>

record ma_device_config =
  deviceType :: ma_device_type
  capture_format :: ma_format
  capture_channels :: nat
  sampleRate :: nat

text \<open>
  The library calls are parameters of the model. Each of \<^verbatim>\<open>ma_device_start\<close>,
  \<^verbatim>\<open>ma_device_stop\<close> and \<^verbatim>\<open>ma_device_uninit\<close> receives \<^verbatim>\<open>&cap->device\<close>, a pointer into the
  session, and the device holds the session as its user data: the call is a function of
  the session as it is at the moment of the call, and returns the device it leaves behind.
\<close>

record 'd ma_backend =
  ma_device_init :: "ma_device_config \<Rightarrow> ma_result \<times> 'd"
  ma_device_start :: "'d AudioCapture \<Rightarrow> ma_result \<times> 'd"
  ma_device_stop :: "'d AudioCapture \<Rightarrow> 'd"
  ma_device_uninit :: "'d AudioCapture \<Rightarrow> 'd"

subsection \<open>Copying samples\<close>

text \<open>
  \<^verbatim>\<open>memcpy(dst + off, src, n * sizeof(float))\<close> on blocks of samples. The C call has no
  defined result when it reads or writes outside a block, or when \<open>n\<close> is negative (the
  byte count is then converted to a huge \<^verbatim>\<open>size_t\<close>): that outcome is the fault
  \<open>Out_of_bounds\<close>. \<^verbatim>\<open>size_t\<close> is taken to be 64 bits wide, so that the byte count of a
  non-negative 32-bit \<open>n\<close> does not wrap.
\<close>

datatype fault = Out_of_bounds

definition memcpy_f32 :: "float32 list \<Rightarrow> int \<Rightarrow> float32 list \<Rightarrow> int \<Rightarrow> fault + float32 list" where
  "memcpy_f32 dst off src n =
     (if 0 \<le> off \<and> 0 \<le> n \<and> nat off + nat n \<le> length dst \<and> nat n \<le> length src
      then Inr (take (nat off) dst @ take (nat n) src @ drop (nat off + nat n) dst)
      else Inl Out_of_bounds)"

subsection \<open>The operations\<close>

text \<open>
  A handle \<^verbatim>\<open>AudioCapture*\<close> is \<open>None\<close> when it is \<^verbatim>\<open>NULL\<close> and \<open>Some c\<close> when it points to
  the session \<open>c\<close>; every operation returns the session it leaves behind. An input or
  output pointer is \<open>None\<close> when \<^verbatim>\<open>NULL\<close> and otherwise the block it points to.
\<close>

text \<open>
  \<^verbatim>\<open>data_callback\<close>: \<open>cap\<close> is \<^verbatim>\<open>pDevice->pUserData\<close>. In the guard the \<^verbatim>\<open>int\<close>
  \<^verbatim>\<open>sample_count\<close> and \<^verbatim>\<open>MAX_SAMPLES\<close> are converted to \<^verbatim>\<open>unsigned\<close>, so both the sum and
  the comparison are those of 32-bit words. \<^verbatim>\<open>+=\<close> stores the same wrapped sum, and
  \<^verbatim>\<open>callback_count++\<close> is the two's complement increment.
\<close>

definition data_callback ::
  "'d AudioCapture option \<Rightarrow> float32 list option \<Rightarrow> ma_uint32 \<Rightarrow> fault + 'd AudioCapture option" where
  "data_callback cap pInput frameCount =
     (case cap of
        None \<Rightarrow> Inr None
      | Some c \<Rightarrow>
          if recording c = 0 then Inr (Some c)
          else (case pInput of
                  None \<Rightarrow> Inr (Some c)
                | Some inp \<Rightarrow>
                    if sample_count c + frameCount < of_nat MAX_SAMPLES
                    then (case memcpy_f32 (buffer c) (sint (sample_count c)) inp (uint frameCount) of
                            Inl e \<Rightarrow> Inl e
                          | Inr b \<Rightarrow>
                              Inr (Some (c\<lparr>buffer := b,
                                          sample_count := sample_count c + frameCount,
                                          callback_count := callback_count c + 1\<rparr>)))
                    else Inr (Some c)))"

text \<open>
  \<^verbatim>\<open>audio_capture_create\<close>. \<open>cap_malloc\<close> tells whether the first \<^verbatim>\<open>malloc\<close> succeeded and
  \<open>buf_malloc\<close> is the block the second one returned (\<open>None\<close> for \<^verbatim>\<open>NULL\<close>); its contents
  are whatever the allocator left there.
\<close>

definition audio_capture_create ::
  "'d ma_backend \<Rightarrow> bool \<Rightarrow> float32 list option \<Rightarrow> 'd AudioCapture option" where
  "audio_capture_create be cap_malloc buf_malloc =
     (if \<not> cap_malloc then None
      else (case buf_malloc of
              None \<Rightarrow> None
            | Some mem \<Rightarrow>
                (let config = \<lparr>deviceType = ma_device_type_capture, capture_format = ma_format_f32,
                               capture_channels = 1, sampleRate = 16000\<rparr>;
                     (r, d) = ma_device_init be config
                 in if r \<noteq> MA_SUCCESS then None
                    else Some \<lparr>device = d, buffer = mem, sample_count = 0,
                               callback_count = 0, recording = 0\<rparr>)))"

text \<open>\<^verbatim>\<open>audio_capture_start\<close>: the return code and the session.\<close>

definition audio_capture_start ::
  "'d ma_backend \<Rightarrow> 'd AudioCapture option \<Rightarrow> c_int \<times> 'd AudioCapture option" where
  "audio_capture_start be cap =
     (case cap of
        None \<Rightarrow> (- 1, None)
      | Some c \<Rightarrow>
          (let c1 = c\<lparr>sample_count := 0, callback_count := 0, recording := 1\<rparr>;
               (r, d) = ma_device_start be c1;
               c2 = c1\<lparr>device := d\<rparr>
           in if r \<noteq> MA_SUCCESS then (- 1, Some (c2\<lparr>recording := 0\<rparr>))
              else (0, Some c2)))"

text \<open>
  \<^verbatim>\<open>audio_capture_stop\<close>: the return value, the session and the caller's block.
  \<^verbatim>\<open>max_samples > 0\<close> and \<^verbatim>\<open>count < max_samples\<close> compare \<^verbatim>\<open>int\<close>s, so they are signed.
\<close>

definition audio_capture_stop ::
  "'d ma_backend \<Rightarrow> 'd AudioCapture option \<Rightarrow> float32 list option \<Rightarrow> c_int \<Rightarrow>
     fault + (c_int \<times> 'd AudioCapture option \<times> float32 list option)" where
  "audio_capture_stop be cap buf max_samples =
     (case cap of
        None \<Rightarrow> Inr (0, None, buf)
      | Some c \<Rightarrow>
          (let c1 = c\<lparr>recording := 0\<rparr>;
               c2 = c1\<lparr>device := ma_device_stop be c1\<rparr>;
               count = sample_count c2
           in case buf of
                None \<Rightarrow> Inr (count, Some c2, None)
              | Some out \<Rightarrow>
                  if 0 < sint max_samples
                  then (let to_copy = (if sint count < sint max_samples then count else max_samples)
                        in case memcpy_f32 out 0 (buffer c2) (sint to_copy) of
                             Inl e \<Rightarrow> Inl e
                           | Inr out' \<Rightarrow> Inr (count, Some c2, Some out'))
                  else Inr (count, Some c2, Some out)))"

text \<open>\<^verbatim>\<open>audio_capture_get_callback_count\<close>\<close>

definition audio_capture_get_callback_count :: "'d AudioCapture option \<Rightarrow> c_int" where
  "audio_capture_get_callback_count cap =
     (case cap of None \<Rightarrow> 0 | Some c \<Rightarrow> callback_count c)"

text \<open>
  \<^verbatim>\<open>audio_capture_destroy\<close> returns nothing; the model returns what it did. \<open>Torn_down d\<close>:
  the library closed the device, leaving \<open>d\<close>, and the buffer and the session were freed.
\<close>

datatype 'd destroy_effect = Nothing_done | Torn_down 'd

definition audio_capture_destroy :: "'d ma_backend \<Rightarrow> 'd AudioCapture option \<Rightarrow> 'd destroy_effect" where
  "audio_capture_destroy be cap =
     (case cap of
        None \<Rightarrow> Nothing_done
      | Some c \<Rightarrow> Torn_down (ma_device_uninit be c))"


section \<open>Sessions, callers and runs\<close>

text \<open>
  The data invariant of a session: the buffer is the block of \<open>MAX_SAMPLES\<close> samples that
  \<open>audio_capture_create\<close> allocated, and the count is a position in it.
\<close>

definition valid_session :: "'d AudioCapture \<Rightarrow> bool" where
  "valid_session c \<longleftrightarrow>
     length (buffer c) = MAX_SAMPLES \<and>
     0 \<le> sint (sample_count c) \<and> sint (sample_count c) \<le> int MAX_SAMPLES"

text \<open>
  What \<open>audio_capture_stop\<close> expects of its caller: a block that is passed holds at least
  \<open>max_samples\<close> samples.
\<close>

definition out_fits :: "float32 list option \<Rightarrow> c_int \<Rightarrow> bool" where
  "out_fits buf max_samples =
     (case buf of None \<Rightarrow> True | Some out \<Rightarrow> sint max_samples \<le> int (length out))"

text \<open>
  The calls that act on a session after its creation, and a run of them. A call that has
  no defined result ends the run with the fault.
\<close>

datatype call =
    Start
  | Stop "float32 list option" c_int
  | Data_available "float32 list option" ma_uint32

fun step :: "'d ma_backend \<Rightarrow> 'd AudioCapture option \<Rightarrow> call \<Rightarrow> fault + 'd AudioCapture option" where
  "step be cap Start = Inr (snd (audio_capture_start be cap))"
| "step be cap (Stop buf max_samples) =
     (case audio_capture_stop be cap buf max_samples of
        Inl e \<Rightarrow> Inl e
      | Inr (count, cap', buf') \<Rightarrow> Inr cap')"
| "step be cap (Data_available pInput frameCount) = data_callback cap pInput frameCount"

fun run :: "'d ma_backend \<Rightarrow> 'd AudioCapture option \<Rightarrow> call list \<Rightarrow> fault + 'd AudioCapture option" where
  "run be cap [] = Inr cap"
| "run be cap (x # xs) =
     (case step be cap x of Inl e \<Rightarrow> Inl e | Inr cap' \<Rightarrow> run be cap' xs)"

text \<open>
  The library delivering batches one after the other: each batch is handed to
  \<open>data_callback\<close> with its own number of frames.
\<close>

fun deliver :: "'d AudioCapture option \<Rightarrow> float32 list list \<Rightarrow> fault + 'd AudioCapture option" where
  "deliver cap [] = Inr cap"
| "deliver cap (b # bs) =
     (case data_callback cap (Some b) (of_nat (length b)) of
        Inl e \<Rightarrow> Inl e
      | Inr cap' \<Rightarrow> deliver cap' bs)"

text \<open>The count is a position below the capacity, whenever there is a session.\<close>

definition count_ok :: "'d AudioCapture option \<Rightarrow> bool" where
  "count_ok cap =
     (case cap of
        None \<Rightarrow> True
      | Some c \<Rightarrow> 0 \<le> sint (sample_count c) \<and> sint (sample_count c) < int MAX_SAMPLES)"

subsection \<open>Concrete libraries and sessions\<close>

text \<open>
  Two libraries whose device is just the flag "streaming": one that always starts, one
  that refuses to start. \<open>session_with n k r\<close> is a session with the three integer fields
  as given, over a full-size buffer that begins with the samples 1, 2, 3, 4.
\<close>

definition working_backend :: "bool ma_backend" where
  "working_backend =
     \<lparr>ma_device_init = (\<lambda>config. (MA_SUCCESS, False)),
      ma_device_start = (\<lambda>c. (MA_SUCCESS, True)),
      ma_device_stop = (\<lambda>c. False),
      ma_device_uninit = (\<lambda>c. False)\<rparr>"

definition refusing_backend :: "bool ma_backend" where
  "refusing_backend =
     \<lparr>ma_device_init = (\<lambda>config. (MA_SUCCESS, False)),
      ma_device_start = (\<lambda>c. (MA_ERROR, device c)),
      ma_device_stop = (\<lambda>c. False),
      ma_device_uninit = (\<lambda>c. False)\<rparr>"

definition session_with :: "c_int \<Rightarrow> c_int \<Rightarrow> c_int \<Rightarrow> bool AudioCapture" where
  "session_with n k r =
     \<lparr>device = (r \<noteq> 0), buffer = [1, 2, 3, 4] @ replicate 959996 0,
      sample_count = n, callback_count = k, recording = r\<rparr>"


section \<open>Facts about 32-bit integers\<close>

lemma sint_small: "uint (w::32 word) < 2147483648 \<Longrightarrow> sint w = uint w"
proof -
  assume a: "uint w < 2147483648"
  have "- 2147483648 \<le> uint w" by (rule order_trans[where y=0]) simp_all
  with a show ?thesis using signed_take_bit_int_eq_self[of 31 "uint w"] by (simp add: sint_uint)
qed

lemma uint_of_sint_nonneg: "0 \<le> sint (w::32 word) \<Longrightarrow> uint w = sint w"
  using sint_lt[of w] take_bit_int_eq_self[of "sint w" 32] by (simp add: uint_sint)

text \<open>Below the capacity the guard of \<open>data_callback\<close> holds and the sum does not wrap.\<close>

lemma accept_arith:
  fixes sc fc :: "32 word"
  assumes "0 \<le> sint sc" "sint sc + uint fc < int MAX_SAMPLES"
  shows "sc + fc < of_nat MAX_SAMPLES" and "sint (sc + fc) = sint sc + uint fc"
proof -
  have u: "uint sc = sint sc" using assms(1) by (rule uint_of_sint_nonneg)
  have s: "uint sc + uint fc < 960000" using assms(2) u by (simp add: MAX_SAMPLES_def)
  then have "uint sc + uint fc < 2 ^ LENGTH(32)" by simp
  then have a: "uint (sc + fc) = uint sc + uint fc" by (simp only: uint_add_lem)
  show "sc + fc < of_nat MAX_SAMPLES" using a s by (simp add: word_less_alt MAX_SAMPLES_def)
  have "uint (sc + fc) < 2147483648" using a s by simp
  then have "sint (sc + fc) = uint (sc + fc)" by (rule sint_small)
  then show "sint (sc + fc) = sint sc + uint fc" using a u by simp
qed

text \<open>
  Whatever the two summands are, a sum that passes the guard is a count below the
  capacity: this is the value \<open>data_callback\<close> stores.
\<close>

lemma guard_bound:
  fixes sc fc :: "32 word"
  assumes "sc + fc < of_nat MAX_SAMPLES"
  shows "0 \<le> sint (sc + fc) \<and> sint (sc + fc) < int MAX_SAMPLES"
proof -
  have "uint (sc + fc) < 960000" using assms by (simp add: word_less_alt MAX_SAMPLES_def)
  moreover from this have "sint (sc + fc) = uint (sc + fc)" by (intro sint_small) simp
  ultimately show ?thesis by (simp add: MAX_SAMPLES_def)
qed

section \<open>The data callback\<close>

text \<open>
  A batch that keeps the count strictly below the capacity is accepted: it is copied to
  the positions from the old count on, the count grows by the number of frames and the
  callback counter by one.
\<close>

lemma data_callback_accept:
  assumes v: "valid_session c" and r: "recording c \<noteq> 0"
    and fit: "sint (sample_count c) + uint frameCount < int MAX_SAMPLES"
    and inp: "unat frameCount \<le> length inp"
  shows "data_callback (Some c) (Some inp) frameCount =
           Inr (Some (c\<lparr>buffer := take (nat (sint (sample_count c))) (buffer c) @ take (unat frameCount) inp
                                    @ drop (nat (sint (sample_count c)) + unat frameCount) (buffer c),
                         sample_count := sample_count c + frameCount,
                         callback_count := callback_count c + 1\<rparr>))"
proof -
  have nn: "0 \<le> sint (sample_count c)" and len: "length (buffer c) = MAX_SAMPLES"
    using v by (simp_all add: valid_session_def)
  have g: "sample_count c + frameCount < of_nat MAX_SAMPLES"
    using nn fit by (rule accept_arith(1))
  have "nat (sint (sample_count c)) + unat frameCount \<le> length (buffer c)"
    using nn fit len uint_nat[of frameCount] by linarith
  then have m: "memcpy_f32 (buffer c) (sint (sample_count c)) inp (uint frameCount) =
      Inr (take (nat (sint (sample_count c))) (buffer c) @ take (unat frameCount) inp
            @ drop (nat (sint (sample_count c)) + unat frameCount) (buffer c))"
    using nn inp by (simp add: memcpy_f32_def)
  show ?thesis using r g m by (simp add: data_callback_def)
qed

text \<open>
  A batch that would take the count to the capacity or beyond is dropped, as long as the
  32-bit sum of the guard does not wrap.
\<close>

lemma data_callback_drop:
  assumes nn: "0 \<le> sint (sample_count c)"
    and full: "int MAX_SAMPLES \<le> sint (sample_count c) + uint frameCount"
    and nowrap: "sint (sample_count c) + uint frameCount < 2 ^ 32"
  shows "data_callback (Some c) pInput frameCount = Inr (Some c)"
proof -
  have u: "uint (sample_count c) = sint (sample_count c)" using nn by (rule uint_of_sint_nonneg)
  have "uint (sample_count c) + uint frameCount < 2 ^ LENGTH(32)" using nowrap u by simp
  then have "uint (sample_count c + frameCount) = uint (sample_count c) + uint frameCount"
    by (simp only: uint_add_lem)
  then have "\<not> sample_count c + frameCount < of_nat MAX_SAMPLES"
    using full u by (simp add: word_less_alt MAX_SAMPLES_def)
  then show ?thesis by (simp add: data_callback_def split: option.split)
qed

lemma data_callback_buffer_length:
  assumes "data_callback (Some c) pInput frameCount = Inr (Some c')"
  shows "length (buffer c') = length (buffer c)"
  using assms
  by (auto simp: data_callback_def memcpy_f32_def split: if_splits option.splits sum.splits)

text \<open>
  C1. A recording session takes a batch that fits into the 960,000 samples of the buffer:
  the frames go to the positions from \<open>sample_count\<close> on, \<open>sample_count\<close> grows by
  \<open>frameCount\<close> and \<open>callback_count\<close> by one; a batch that fills the buffer exactly is among
  them. The code does so only while the new count stays strictly below 960,000
  (\<open>data_callback_accept\<close>). Here the session holds 959,000 samples and the batch has 1,000
  frames, so that the batch fills the buffer exactly: the callback leaves the session as it
  was, and the batch is lost.
\<close>

theorem data_callback_exact_fill_dropped:
  "valid_session (session_with 959000 7 1) \<and>
   recording (session_with 959000 7 1) \<noteq> 0 \<and>
   sint (sample_count (session_with 959000 7 1)) + uint (1000 :: ma_uint32) = int MAX_SAMPLES \<and>
   data_callback (Some (session_with 959000 7 1)) (Some (replicate 1000 5)) 1000 =
     Inr (Some (session_with 959000 7 1))"
  by (simp add: data_callback_def session_with_def valid_session_def MAX_SAMPLES_def)

text \<open>
  C2. A batch that would take \<open>sample_count\<close> beyond 960,000 is dropped whole:
  \<open>sample_count\<close>, \<open>callback_count\<close> and the buffer stay as they were. The code does so
  while the sum in its guard does not wrap (\<open>data_callback_drop\<close>). Here the session holds
  10 samples and \<open>frameCount\<close> is 4,294,967,291: the 32-bit sum is 5, the guard lets the
  batch in, and the copy of 4,294,967,291 samples to position 10 runs over the end of the
  buffer.
\<close>

theorem data_callback_guard_wraps:
  "valid_session (session_with 10 1 1) \<and>
   recording (session_with 10 1 1) \<noteq> 0 \<and>
   int MAX_SAMPLES < sint (sample_count (session_with 10 1 1)) + uint (4294967291 :: ma_uint32) \<and>
   sample_count (session_with 10 1 1) + 4294967291 = 5 \<and>
   data_callback (Some (session_with 10 1 1)) (Some (replicate 4294967291 5)) 4294967291 =
     Inl Out_of_bounds"
  by (simp add: data_callback_def memcpy_f32_def session_with_def valid_session_def MAX_SAMPLES_def)

text \<open>
  C10. A callback without input (\<^verbatim>\<open>pInput\<close> is \<^verbatim>\<open>NULL\<close>) leaves the whole session as it
  was, recording or not: no sample is added and neither counter moves.
\<close>

theorem data_callback_null_input:
  "data_callback cap None frameCount = Inr cap"
  by (simp add: data_callback_def split: option.split)

section \<open>The null handle\<close>

text \<open>
  C8. On a null handle \<open>audio_capture_stop\<close> returns 0, \<open>audio_capture_get_callback_count\<close>
  returns 0 and \<open>audio_capture_destroy\<close> does nothing; the handle stays null, the caller's
  block is returned untouched and the library is not called.
\<close>

theorem null_handle_is_harmless:
  "audio_capture_stop be None buf max_samples = Inr (0, None, buf) \<and>
   audio_capture_get_callback_count None = 0 \<and>
   audio_capture_destroy be None = Nothing_done"
  by (simp add: audio_capture_stop_def audio_capture_get_callback_count_def
        audio_capture_destroy_def)

section \<open>Runs of calls\<close>

lemma count_ok_create: "count_ok (audio_capture_create be cap_malloc buf_malloc)"
  by (simp add: count_ok_def audio_capture_create_def MAX_SAMPLES_def Let_def
      split: option.split prod.split)

lemma count_ok_start: "count_ok (snd (audio_capture_start be cap))"
  by (simp add: count_ok_def audio_capture_start_def MAX_SAMPLES_def Let_def
      split: option.split prod.split)

lemma count_ok_stop:
  "count_ok cap \<Longrightarrow> audio_capture_stop be cap buf n = Inr (count, cap', buf') \<Longrightarrow> count_ok cap'"
  by (auto simp: count_ok_def audio_capture_stop_def Let_def split: option.splits if_splits sum.splits)

lemma count_ok_data:
  "count_ok cap \<Longrightarrow> data_callback cap pInput frameCount = Inr cap' \<Longrightarrow> count_ok cap'"
  using guard_bound[of "sample_count (the cap)" frameCount]
  by (auto simp: count_ok_def data_callback_def split: option.splits if_splits sum.splits)

lemma count_ok_step: "count_ok cap \<Longrightarrow> step be cap x = Inr cap' \<Longrightarrow> count_ok cap'"
  by (cases x) (auto simp: count_ok_start dest: count_ok_stop count_ok_data split: sum.splits)

lemma count_ok_run: "count_ok cap \<Longrightarrow> run be cap xs = Inr cap' \<Longrightarrow> count_ok cap'"
proof (induction xs arbitrary: cap)
  case Nil
  then show ?case by simp
next
  case (Cons x xs)
  then show ?case by (auto split: sum.splits dest: count_ok_step)
qed

text \<open>
  C3. In every session that a run of start, stop and data-callback calls reaches after
  \<open>audio_capture_create\<close>, \<open>sample_count\<close> is at most the capacity of 960,000 samples (and
  not negative). The count that \<open>data_callback\<close> stores has passed its guard
  (\<open>guard_bound\<close>), so the bound does not depend on what was copied. A run in which a copy
  leaves its block ends with the fault and reaches no session.
\<close>

theorem sample_count_within_capacity:
  assumes "run be (audio_capture_create be cap_malloc buf_malloc) calls = Inr (Some c)"
  shows "0 \<le> sint (sample_count c) \<and> sint (sample_count c) \<le> int MAX_SAMPLES"
  using count_ok_run[OF count_ok_create assms] by (simp add: count_ok_def)

theorem sample_count_within_capacity_witness:
  "run working_backend (audio_capture_create working_backend True (Some (replicate 960000 0)))
       [Start, Data_available (Some [7, 8, 9]) 3, Data_available (Some (replicate 960000 6)) 960000,
        Stop None 0]
     = Inr (Some \<lparr>device = False, buffer = [7, 8, 9] @ replicate 959997 0, sample_count = 3,
                  callback_count = 1, recording = 0\<rparr>) \<and>
   0 \<le> sint (sample_count \<lparr>device = False, buffer = [7, 8, 9] @ replicate 959997 0,
                            sample_count = (3 :: c_int), callback_count = (1 :: c_int),
                            recording = (0 :: c_int)\<rparr>) \<and>
   sint (sample_count \<lparr>device = False, buffer = [7, 8, 9] @ replicate 959997 0,
                            sample_count = (3 :: c_int), callback_count = (1 :: c_int),
                            recording = (0 :: c_int)\<rparr>) \<le> int MAX_SAMPLES"
proof -
  have r: "run working_backend (audio_capture_create working_backend True (Some (replicate 960000 0)))
       [Start, Data_available (Some [7, 8, 9]) 3, Data_available (Some (replicate 960000 6)) 960000,
        Stop None 0]
     = Inr (Some \<lparr>device = False, buffer = [7, 8, 9] @ replicate 959997 0, sample_count = 3,
                  callback_count = 1, recording = 0\<rparr>)"
    by (simp add: audio_capture_create_def audio_capture_start_def audio_capture_stop_def
        data_callback_def memcpy_f32_def working_backend_def MAX_SAMPLES_def)
  show ?thesis using sample_count_within_capacity[OF r] r by simp
qed

lemma buffer_length_step:
  "step be cap x = Inr cap' \<Longrightarrow>
     map_option (\<lambda>c. length (buffer c)) cap' = map_option (\<lambda>c. length (buffer c)) cap"
proof (cases x)
  case Start
  then show "step be cap x = Inr cap' \<Longrightarrow> ?thesis"
    by (auto simp: audio_capture_start_def Let_def split: option.splits prod.splits)
next
  case (Stop buf n)
  then show "step be cap x = Inr cap' \<Longrightarrow> ?thesis"
    by (auto simp: audio_capture_stop_def Let_def split: option.splits sum.splits if_splits)
next
  case (Data_available pInput frameCount)
  then show "step be cap x = Inr cap' \<Longrightarrow> ?thesis"
    by (auto simp: data_callback_def memcpy_f32_def split: option.splits sum.splits if_splits)
qed

lemma buffer_length_run:
  "run be cap xs = Inr cap' \<Longrightarrow>
     map_option (\<lambda>c. length (buffer c)) cap' = map_option (\<lambda>c. length (buffer c)) cap"
proof (induction xs arbitrary: cap)
  case Nil
  then show ?case by simp
next
  case (Cons x xs)
  then show ?case by (auto split: sum.splits dest!: buffer_length_step)
qed

text \<open>Every session that a run reaches from a creation with a full-size block is valid.\<close>

lemma valid_session_run:
  assumes "length mem = MAX_SAMPLES"
    and "run be (audio_capture_create be cap_malloc (Some mem)) calls = Inr (Some c)"
  shows "valid_session c"
proof -
  have "count_ok (Some c)" using count_ok_run[OF count_ok_create assms(2)] .
  moreover have "map_option (\<lambda>c. length (buffer c)) (audio_capture_create be cap_malloc (Some mem))
                   = Some (length (buffer c))"
    using buffer_length_run[OF assms(2)] by simp
  then have "length (buffer c) = MAX_SAMPLES"
    using assms(1)
    by (auto simp: audio_capture_create_def Let_def split: if_splits prod.splits)
  ultimately show ?thesis by (simp add: valid_session_def count_ok_def)
qed

section \<open>Start\<close>

text \<open>
  C4. Whatever the session was before, \<open>audio_capture_start\<close> puts \<open>sample_count\<close> and
  \<open>callback_count\<close> to zero and \<open>recording\<close> to 1, and it is this session \<open>c1\<close> that
  \<open>ma_device_start\<close> is called on. When the library starts, the call returns 0 and the
  session is recording; when it does not, the call returns -1 and \<open>recording\<close> is back to
  0. Either way the handle still points to the session, with its buffer and zero counts,
  so the session is valid and can be started again.
\<close>

theorem audio_capture_start_resets:
  "(let c1 = c\<lparr>sample_count := 0, callback_count := 0, recording := 1\<rparr>
    in \<exists>c'. snd (audio_capture_start be (Some c)) = Some c' \<and>
         sample_count c' = 0 \<and> callback_count c' = 0 \<and> buffer c' = buffer c \<and>
         device c' = snd (ma_device_start be c1) \<and>
         (fst (ma_device_start be c1) = MA_SUCCESS \<longrightarrow>
            fst (audio_capture_start be (Some c)) = 0 \<and> recording c' = 1) \<and>
         (fst (ma_device_start be c1) \<noteq> MA_SUCCESS \<longrightarrow>
            fst (audio_capture_start be (Some c)) = - 1 \<and> recording c' = 0) \<and>
         (length (buffer c) = MAX_SAMPLES \<longrightarrow> valid_session c'))"
  by (simp add: audio_capture_start_def valid_session_def Let_def split: prod.split)

theorem audio_capture_start_resets_witness:
  "fst (ma_device_start working_backend
          ((session_with 3 2 0)\<lparr>sample_count := 0, callback_count := 0, recording := 1\<rparr>)) = MA_SUCCESS \<and>
   audio_capture_start working_backend (Some (session_with 3 2 0)) = (0, Some (session_with 0 0 1)) \<and>
   fst (ma_device_start refusing_backend
          ((session_with 3 2 0)\<lparr>sample_count := 0, callback_count := 0, recording := 1\<rparr>)) \<noteq> MA_SUCCESS \<and>
   audio_capture_start refusing_backend (Some (session_with 3 2 0)) = (- 1, Some (session_with 0 0 0)) \<and>
   length (buffer (session_with 3 2 0)) = MAX_SAMPLES \<and>
   valid_session (session_with 0 0 1) \<and> valid_session (session_with 0 0 0)"
  using audio_capture_start_resets[of "session_with 3 2 0" working_backend]
        audio_capture_start_resets[of "session_with 3 2 0" refusing_backend]
  by (simp add: audio_capture_start_def session_with_def working_backend_def refusing_backend_def
        valid_session_def MAX_SAMPLES_def)

text \<open>
  C9. When the library refuses to start, \<open>audio_capture_start\<close> returns -1 and leaves
  \<open>sample_count\<close> and \<open>callback_count\<close> at zero, since they were reset before the library
  was called: what was captured before is lost, the callback count reads 0 and a stop
  returns 0 samples.
\<close>

theorem failed_start_clears_counts:
  assumes "fst (ma_device_start be (c\<lparr>sample_count := 0, callback_count := 0, recording := 1\<rparr>)) \<noteq> MA_SUCCESS"
  shows "\<exists>c'. audio_capture_start be (Some c) = (- 1, Some c') \<and>
           sample_count c' = 0 \<and> callback_count c' = 0 \<and> recording c' = 0 \<and>
           audio_capture_get_callback_count (Some c') = 0 \<and>
           (\<exists>c''. audio_capture_stop be (Some c') None max_samples = Inr (0, Some c'', None))"
  using assms
  by (cases "ma_device_start be (c\<lparr>sample_count := 0, callback_count := 0, recording := 1\<rparr>)")
     (simp add: audio_capture_start_def audio_capture_get_callback_count_def
        audio_capture_stop_def Let_def)

theorem failed_start_clears_counts_witness:
  "fst (ma_device_start refusing_backend
          ((session_with 3 2 0)\<lparr>sample_count := 0, callback_count := 0, recording := 1\<rparr>)) \<noteq> MA_SUCCESS \<and>
   (\<exists>c'. audio_capture_start refusing_backend (Some (session_with 3 2 0)) = (- 1, Some c') \<and>
           sample_count c' = 0 \<and> callback_count c' = 0 \<and> recording c' = 0 \<and>
           audio_capture_get_callback_count (Some c') = 0 \<and>
           (\<exists>c''. audio_capture_stop refusing_backend (Some c') None 0 = Inr (0, Some c'', None)))"
proof -
  have h: "fst (ma_device_start refusing_backend
          ((session_with 3 2 0)\<lparr>sample_count := 0, callback_count := 0, recording := 1\<rparr>)) \<noteq> MA_SUCCESS"
    by (simp add: refusing_backend_def)
  show ?thesis using h failed_start_clears_counts[OF h, of 0] by simp
qed

section \<open>Stop\<close>

lemma audio_capture_stop_valid:
  assumes v: "valid_session c" and f: "out_fits buf max_samples"
  shows "audio_capture_stop be (Some c) buf max_samples =
           Inr (sample_count c,
                Some (c\<lparr>recording := 0, device := ma_device_stop be (c\<lparr>recording := 0\<rparr>)\<rparr>),
                (case buf of
                   None \<Rightarrow> None
                 | Some out \<Rightarrow>
                     if 0 < sint max_samples
                     then Some (take (nat (min (sint (sample_count c)) (sint max_samples))) (buffer c)
                                @ drop (nat (min (sint (sample_count c)) (sint max_samples))) out)
                     else Some out))"
proof (cases buf)
  case None
  then show ?thesis by (simp add: audio_capture_stop_def Let_def)
next
  case (Some out)
  show ?thesis
  proof (cases "0 < sint max_samples")
    case False
    then show ?thesis using Some by (simp add: audio_capture_stop_def Let_def)
  next
    case True
    have sc: "0 \<le> sint (sample_count c)" "nat (sint (sample_count c)) \<le> length (buffer c)"
      using v by (auto simp: valid_session_def)
    have mx: "nat (sint max_samples) \<le> length out"
      using f Some by (simp add: out_fits_def)
    show ?thesis
    proof (cases "sint (sample_count c) < sint max_samples")
      case lt: True
      then have "memcpy_f32 out 0 (buffer c) (sint (sample_count c)) =
                   Inr (take (nat (sint (sample_count c))) (buffer c) @ drop (nat (sint (sample_count c))) out)"
        using sc mx by (simp add: memcpy_f32_def)
      then show ?thesis using Some True lt by (simp add: audio_capture_stop_def Let_def)
    next
      case ge: False
      then have le: "sint max_samples \<le> sint (sample_count c)" by simp
      then have "memcpy_f32 out 0 (buffer c) (sint max_samples) =
                   Inr (take (nat (sint max_samples)) (buffer c) @ drop (nat (sint max_samples)) out)"
        using sc mx True by (simp add: memcpy_f32_def)
      then show ?thesis using Some True ge le by (simp add: audio_capture_stop_def Let_def min_absorb2)
    qed
  qed
qed

text \<open>
  C5. On a valid session \<open>audio_capture_stop\<close> sets \<open>recording\<close> to 0, calls
  \<open>ma_device_stop\<close> and returns \<open>sample_count\<close>, whether it copies or not. With a block and
  a positive \<open>max_samples\<close> the first \<open>min sample_count max_samples\<close> samples of the buffer
  replace the same number of samples at the start of the block, and the rest of the block
  stays; with a null block or a \<open>max_samples\<close> that is not positive the block is left as
  it was.
\<close>

theorem audio_capture_stop_readout:
  assumes "valid_session c" and "out_fits buf max_samples"
  shows "audio_capture_stop be (Some c) buf max_samples =
           Inr (sample_count c,
                Some (c\<lparr>recording := 0, device := ma_device_stop be (c\<lparr>recording := 0\<rparr>)\<rparr>),
                (case buf of
                   None \<Rightarrow> None
                 | Some out \<Rightarrow>
                     if 0 < sint max_samples
                     then Some (take (nat (min (sint (sample_count c)) (sint max_samples))) (buffer c)
                                @ drop (nat (min (sint (sample_count c)) (sint max_samples))) out)
                     else Some out))"
  using assms by (rule audio_capture_stop_valid)

theorem audio_capture_stop_readout_witness:
  "valid_session (session_with 3 2 1) \<and> out_fits (Some [9, 9]) 2 \<and>
   audio_capture_stop working_backend (Some (session_with 3 2 1)) (Some [9, 9]) 2 =
     Inr (3, Some (session_with 3 2 0), Some [1, 2])"
  using audio_capture_stop_readout[of "session_with 3 2 1" "Some [9, 9]" 2 working_backend]
  by (simp add: valid_session_def out_fits_def session_with_def working_backend_def MAX_SAMPLES_def)

lemma stop_when_valid:
  assumes "valid_session c" and "out_fits buf max_samples"
  shows "\<exists>out'. audio_capture_stop be (Some c) buf max_samples =
           Inr (sample_count c,
                Some (c\<lparr>recording := 0, device := ma_device_stop be (c\<lparr>recording := 0\<rparr>)\<rparr>), out')"
  by (simp add: audio_capture_stop_valid[OF assms])

text \<open>
  C7. On a valid session that is not recording \<open>audio_capture_stop\<close> still calls
  \<open>ma_device_stop\<close> and returns \<open>sample_count\<close>, the number of samples captured since the
  last start; the session it leaves is again not recording, and a further stop returns the
  same count.
\<close>

theorem stop_again_same_count:
  assumes v: "valid_session c" and r: "recording c = 0"
    and f: "out_fits buf max_samples" and f2: "out_fits buf2 max_samples2"
  shows "\<exists>c' out'. audio_capture_stop be (Some c) buf max_samples = Inr (sample_count c, Some c', out') \<and>
           device c' = ma_device_stop be c \<and> recording c' = 0 \<and>
           (\<exists>c'' out''. audio_capture_stop be (Some c') buf2 max_samples2
                           = Inr (sample_count c, Some c'', out'') \<and>
                         device c'' = ma_device_stop be c')"
proof -
  have same: "c\<lparr>recording := 0\<rparr> = c" using r by simp
  let ?c' = "c\<lparr>device := ma_device_stop be c\<rparr>"
  obtain out' where s1: "audio_capture_stop be (Some c) buf max_samples = Inr (sample_count c, Some ?c', out')"
    using stop_when_valid[OF v f, of be] r same by (auto simp: same)
  have v': "valid_session ?c'" using v by (simp add: valid_session_def)
  have same': "?c'\<lparr>recording := 0\<rparr> = ?c'" using r by simp
  obtain out'' where s2: "audio_capture_stop be (Some ?c') buf2 max_samples2 =
       Inr (sample_count c, Some (?c'\<lparr>device := ma_device_stop be ?c'\<rparr>), out'')"
    using stop_when_valid[OF v' f2, of be] r by (auto simp: same')
  show ?thesis using s1 s2 r by auto
qed

theorem stop_again_same_count_witness:
  "valid_session (session_with 3 2 0) \<and> recording (session_with 3 2 0) = 0 \<and>
   out_fits None 0 \<and> out_fits (Some [9, 9]) 2 \<and>
   audio_capture_stop working_backend (Some (session_with 3 2 0)) None 0 =
     Inr (3, Some (session_with 3 2 0), None) \<and>
   audio_capture_stop working_backend (Some (session_with 3 2 0)) (Some [9, 9]) 2 =
     Inr (3, Some (session_with 3 2 0), Some [1, 2])"
  using stop_again_same_count[of "session_with 3 2 0" None 0 "Some [9, 9]" 2 working_backend]
  by (simp add: valid_session_def out_fits_def session_with_def working_backend_def MAX_SAMPLES_def
        audio_capture_stop_def memcpy_f32_def)

section \<open>Deliveries\<close>

lemma deliver_from:
  assumes "valid_session c" and "recording c \<noteq> 0"
    and "nat (sint (sample_count c)) + sum_list (map length bs) < MAX_SAMPLES"
  shows "deliver (Some c) bs =
           Inr (Some (c\<lparr>buffer := take (nat (sint (sample_count c))) (buffer c) @ concat bs
                                    @ drop (nat (sint (sample_count c)) + sum_list (map length bs)) (buffer c),
                         sample_count := sample_count c + of_nat (sum_list (map length bs)),
                         callback_count := callback_count c + of_nat (length bs)\<rparr>))"
  using assms
proof (induction bs arbitrary: c)
  case Nil
  then show ?case by (simp add: valid_session_def)
next
  case (Cons b bs)
  let ?k = "nat (sint (sample_count c))"
  let ?fc = "of_nat (length b) :: 32 word"
  let ?c1 = "c\<lparr>buffer := take ?k (buffer c) @ b @ drop (?k + length b) (buffer c),
                 sample_count := sample_count c + ?fc,
                 callback_count := callback_count c + 1\<rparr>"
  have nn: "0 \<le> sint (sample_count c)" and len: "length (buffer c) = MAX_SAMPLES"
    using Cons.prems(1) by (simp_all add: valid_session_def)
  have lb: "length b < MAX_SAMPLES" using Cons.prems(3) by simp
  then have ufc: "unat ?fc = length b"
    by (simp add: unat_of_nat MAX_SAMPLES_def)
  then have ufc': "uint ?fc = int (length b)" by (simp add: uint_nat)
  have fit: "sint (sample_count c) + uint ?fc < int MAX_SAMPLES"
    using Cons.prems(3) nn ufc' by simp
  have step: "data_callback (Some c) (Some b) ?fc = Inr (Some ?c1)"
    using data_callback_accept[OF Cons.prems(1) Cons.prems(2) fit, of b] ufc by simp
  have sc1: "sint (sample_count ?c1) = sint (sample_count c) + int (length b)"
    using accept_arith(2)[OF nn fit] ufc' by simp
  then have k1: "nat (sint (sample_count ?c1)) = ?k + length b" using nn by simp
  have v1: "valid_session ?c1"
    using sc1 nn len fit ufc' by (simp add: valid_session_def)
  have r1: "recording ?c1 \<noteq> 0" using Cons.prems(2) by simp
  have room: "nat (sint (sample_count ?c1)) + sum_list (map length bs) < MAX_SAMPLES"
    using Cons.prems(3) k1 by simp
  have kl: "?k + length b \<le> length (buffer c)" using Cons.prems(3) len by simp
  have t: "take (?k + length b) (buffer ?c1) = take ?k (buffer c) @ b"
    using kl by simp
  have d: "drop (?k + length b + sum_list (map length bs)) (buffer ?c1)
             = drop (?k + length b + sum_list (map length bs)) (buffer c)"
    using kl by (simp add: add.commute add.left_commute)
  show ?case
    using Cons.IH[OF v1 r1 room] step t d k1
    by (simp add: add.assoc)
qed

text \<open>
  C6. A recording session that has just been started receives the batches \<open>bs\<close> one after
  the other, and the capacity is not reached: the frame counts add up to less than
  960,000. Then every batch is accepted, \<open>sample_count\<close> is the sum of the frame counts,
  and the buffer begins with the batches, one after the other in the order of delivery.
\<close>

theorem deliveries_accumulate:
  assumes v: "valid_session c" and r: "recording c \<noteq> 0" and z: "sample_count c = 0"
    and below: "sum_list (map length bs) < MAX_SAMPLES"
  shows "\<exists>c'. deliver (Some c) bs = Inr (Some c') \<and>
           sint (sample_count c') = int (sum_list (map length bs)) \<and>
           take (sum_list (map length bs)) (buffer c') = concat bs"
proof -
  let ?t = "sum_list (map length bs)"
  let ?c' = "c\<lparr>buffer := concat bs @ drop ?t (buffer c),
                 sample_count := of_nat ?t,
                 callback_count := callback_count c + of_nat (length bs)\<rparr>"
  have "deliver (Some c) bs = Inr (Some ?c')"
    using deliver_from[OF v r, of bs] below z by simp
  moreover have "unat (of_nat ?t :: 32 word) = ?t"
    using below by (simp add: unat_of_nat MAX_SAMPLES_def)
  then have "uint (of_nat ?t :: 32 word) = int ?t" by (simp add: uint_nat)
  then have "sint (of_nat ?t :: 32 word) = int ?t"
    using below sint_small[of "of_nat ?t"] by (simp add: MAX_SAMPLES_def)
  moreover have "take ?t (buffer ?c') = concat bs" by (simp add: length_concat)
  ultimately show ?thesis by simp
qed

theorem deliveries_accumulate_witness:
  "valid_session (session_with 0 0 1) \<and> recording (session_with 0 0 1) \<noteq> 0 \<and>
   sample_count (session_with 0 0 1) = 0 \<and>
   sum_list (map length [[7, 8], [], [9 :: float32]]) < MAX_SAMPLES \<and>
   deliver (Some (session_with 0 0 1)) [[7, 8], [], [9]] =
     Inr (Some ((session_with 3 3 1)\<lparr>buffer := [7, 8, 9, 4] @ replicate 959996 0\<rparr>))"
  using deliveries_accumulate[of "session_with 0 0 1" "[[7, 8], [], [9]]"]
  by (simp add: valid_session_def session_with_def MAX_SAMPLES_def data_callback_def memcpy_f32_def)

end
